theory Spec2Isabelle
  imports Main "HOL-Library.Sublist"
begin

section \<open>The video cache of Prebid.js (src/videoCache.js)\<close>

text \<open>
  The module stores the VAST content of video bids on a remote cache server (in batches),
  attributes the returned identifiers to the bids, and keeps a local in-memory fallback.
  The functions below follow the source one by one and keep its names. Side effects are
  explicit: log calls, calls of the acceptance function and of completion callbacks are
  recorded as events, mutated bids and the local cache are returned.
\<close>

subsection \<open>JavaScript values and string conversion\<close>

text \<open>
  A JavaScript string is modelled by the bytes of its text in UTF-8, so that every
  character of a bid or of a response has a representation. Concatenation, comparison
  and search act on the bytes as they act on the characters. Two operations see the
  UTF-16 code units of the string instead and are written out: \<^verbatim>\<open>length\<close> counts
  them, and \<^verbatim>\<open>btoa\<close> (below) accepts only code units up to 255.
\<close>

definition utf16_units :: "char \<Rightarrow> nat" where
  "utf16_units c =
     (let b = (of_char c :: nat)
      in if b < 0x80 then 1 else if b < 0xC0 then 0 else if b < 0xF0 then 1 else 2)"

definition js_length :: "string \<Rightarrow> nat" where
  "js_length s = sum_list (map utf16_units s)"

text \<open>
  Decimal rendering of a number inside a template literal. Numbers are integers in this
  model (counts, seconds, timestamps).
\<close>

fun show_nat :: "nat \<Rightarrow> string" where
  "show_nat n =
     (if n < 10 then [''0123456789'' ! n]
      else show_nat (n div 10) @ [''0123456789'' ! (n mod 10)])"

declare show_nat.simps [simp del]

definition show_int :: "int \<Rightarrow> string" where
  "show_int i = (if i < 0 then CHR ''-'' # show_nat (nat (- i)) else show_nat (nat i))"

text \<open>
  A value produced by \<^verbatim>\<open>JSON.parse\<close>. A \<^verbatim>\<open>json option\<close> is a JavaScript value
  that may also be \<^verbatim>\<open>undefined\<close> (\<open>None\<close>).
\<close>

datatype json =
    JNull
  | JBool bool
  | JNum int
  | JStr string
  | JArr "json list"
  | JObj "(string \<times> json) list"

text \<open>An exception object: its name and its message.\<close>

datatype js_error = JsError string string

definition error_to_string :: "js_error \<Rightarrow> string" where
  "error_to_string e = (case e of JsError name msg \<Rightarrow> name @ '': '' @ msg)"

text \<open>\<^verbatim>\<open>xs.join(sep)\<close> on strings.\<close>

fun join :: "string \<Rightarrow> string list \<Rightarrow> string" where
  "join sep [] = []"
| "join sep [x] = x"
| "join sep (x # y # ys) = x @ sep @ join sep (y # ys)"

text \<open>
  ToString, as a template literal applies it. Inside \<^verbatim>\<open>Array.prototype.join\<close> the
  elements \<^verbatim>\<open>null\<close> and \<^verbatim>\<open>undefined\<close> are rendered as the empty string.
\<close>

fun to_string :: "json \<Rightarrow> string"
  and elem_to_string :: "json \<Rightarrow> string" where
  "to_string JNull = ''null''"
| "to_string (JBool b) = (if b then ''true'' else ''false'')"
| "to_string (JNum i) = show_int i"
| "to_string (JStr s) = s"
| "to_string (JArr xs) = join '','' (map elem_to_string xs)"
| "to_string (JObj kvs) = ''[object Object]''"
| "elem_to_string JNull = []"
| "elem_to_string (JBool b) = to_string (JBool b)"
| "elem_to_string (JNum i) = to_string (JNum i)"
| "elem_to_string (JStr s) = to_string (JStr s)"
| "elem_to_string (JArr xs) = to_string (JArr xs)"
| "elem_to_string (JObj kvs) = to_string (JObj kvs)"

definition tmpl :: "json option \<Rightarrow> string" where
  "tmpl v = (case v of None \<Rightarrow> ''undefined'' | Some j \<Rightarrow> to_string j)"

definition tmpl_str :: "string option \<Rightarrow> string" where
  "tmpl_str v = (case v of None \<Rightarrow> ''undefined'' | Some s \<Rightarrow> s)"

text \<open>Truthiness of a value.\<close>

fun truthy :: "json \<Rightarrow> bool" where
  "truthy JNull = False"
| "truthy (JBool b) = b"
| "truthy (JNum i) = (i \<noteq> 0)"
| "truthy (JStr s) = (s \<noteq> [])"
| "truthy (JArr xs) = True"
| "truthy (JObj kvs) = True"

definition truthy_str :: "string option \<Rightarrow> bool" where
  "truthy_str v = (case v of None \<Rightarrow> False | Some s \<Rightarrow> s \<noteq> [])"

subsection \<open>VastWrapperBuilder: wrapURI\<close>

text \<open>
  The second argument of \<^verbatim>\<open>wrapURI\<close>: absent, one tracker URL, or an array of them.
\<close>

datatype imp_trackers = NoTrackers | OneTracker string | Trackers "string list"

definition nl :: string where
  "nl = [CHR 0x0A]"

definition impression :: "string \<Rightarrow> string" where
  "impression trk = ''<Impression><![CDATA['' @ trk @ '']]></Impression>''"

text \<open>
  \<^verbatim>\<open>impTrackerURLs && (Array.isArray(impTrackerURLs) ? impTrackerURLs : [impTrackerURLs])\<close>:
  \<open>None\<close> is a falsy argument (absent, or the empty string), which is kept as it is.
\<close>

definition normalize_trackers :: "imp_trackers \<Rightarrow> string list option" where
  "normalize_trackers t =
     (case t of
        NoTrackers \<Rightarrow> None
      | OneTracker s \<Rightarrow> (if s = [] then None else Some [s])
      | Trackers ts \<Rightarrow> Some ts)"

definition impressions_of :: "imp_trackers \<Rightarrow> string" where
  "impressions_of t =
     (case normalize_trackers t of
        Some ts \<Rightarrow> join [] (map impression ts)
      | None \<Rightarrow> [])"

definition wrapURI :: "string \<Rightarrow> imp_trackers \<Rightarrow> string" where
  \<open>wrapURI uri impTrackerURLs =
     (let impressions = impressions_of impTrackerURLs in
        ''<VAST version="3.0">'' @ nl @
        ''    <Ad>'' @ nl @
        ''      <Wrapper>'' @ nl @
        ''        <AdSystem>prebid.org wrapper</AdSystem>'' @ nl @
        ''        <VASTAdTagURI><![CDATA['' @ uri @ '']]></VASTAdTagURI>'' @ nl @
        ''        '' @ impressions @ nl @
        ''        <Creatives></Creatives>'' @ nl @
        ''      </Wrapper>'' @ nl @
        ''    </Ad>'' @ nl @
        ''  </VAST>'')\<close>

subsection \<open>Bids\<close>

text \<open>
  The fields of a bid response that the module reads or writes. An optional field is
  \<open>None\<close> when the property is \<^verbatim>\<open>undefined\<close>. \<open>ttl\<close> is a number of seconds, on which
  \<^verbatim>\<open>Number(bid.ttl)\<close> is the identity. \<open>videoCacheKey\<close> holds whatever value the cache
  server returned as \<^verbatim>\<open>uuid\<close>.
\<close>

record bid =
  bidder :: "string option"
  bidderCode :: "string option"
  adId :: "string option"
  requestId :: "string option"
  auctionId :: "string option"
  vastXml :: "string option"
  vastUrl :: "string option"
  vastImpUrl :: imp_trackers
  ttl :: int
  customCacheKey :: "string option"
  videoCacheKey :: "json option"

text \<open>
  \<^verbatim>\<open>bid.vastXml ? bid.vastXml : wrapURI(bid.vastUrl, bid.vastImpUrl)\<close>. The template
  literal of \<^verbatim>\<open>wrapURI\<close> renders an undefined \<^verbatim>\<open>vastUrl\<close> as the text \<^verbatim>\<open>undefined\<close>.
\<close>

definition getVastValue :: "bid \<Rightarrow> string" where
  "getVastValue b =
     (case vastXml b of
        Some xml \<Rightarrow>
          (if xml \<noteq> [] then xml else wrapURI (tmpl_str (vastUrl b)) (vastImpUrl b))
      | None \<Rightarrow> wrapURI (tmpl_str (vastUrl b)) (vastImpUrl b))"

subsection \<open>RequestTranslator: toStorageRequest\<close>

definition ttlBufferInSeconds :: int where
  "ttlBufferInSeconds = 15"

text \<open>
  What the function reads from its collaborators: the configuration store
  (\<^verbatim>\<open>cache.vasttrack\<close>, \<^verbatim>\<open>cache.url\<close>) and the auction index, which gives the start
  time of the auction of a bid when that auction is known.
\<close>

record env =
  cache_vasttrack :: bool
  cache_url :: "string option"
  auction_start :: "bid \<Rightarrow> int option"

record payload =
  p_type :: string
  p_value :: string
  p_ttlseconds :: int
  p_bidder :: "string option"
  p_bidid :: "string option"
  p_aid :: "string option"
  p_timestamp :: "int option"
  p_key :: "string option"

definition toStorageRequest :: "env \<Rightarrow> bid \<Rightarrow> payload" where
  "toStorageRequest e b =
     (let vastValue = getVastValue b;
          auction = auction_start e b;
          ttlWithBuffer = ttl b + ttlBufferInSeconds;
          p0 = \<lparr>p_type = ''xml'', p_value = vastValue, p_ttlseconds = ttlWithBuffer,
                p_bidder = None, p_bidid = None, p_aid = None,
                p_timestamp = None, p_key = None\<rparr>;
          p1 = (if cache_vasttrack e
                then p0\<lparr>p_bidder := bidder b, p_bidid := requestId b, p_aid := auctionId b\<rparr>
                else p0);
          p2 = (case auction of Some start \<Rightarrow> p1\<lparr>p_timestamp := Some start\<rparr> | None \<Rightarrow> p1);
          p3 = (if customCacheKey b \<noteq> None \<and> customCacheKey b \<noteq> Some []
                then p2\<lparr>p_key := customCacheKey b\<rparr>
                else p2)
      in p3)"

subsection \<open>ResponseAdapter: shimStorageCallback\<close>

text \<open>
  Property access \<^verbatim>\<open>v.k\<close> on a parsed value, for the property names the module reads
  (\<^verbatim>\<open>responses\<close>, \<^verbatim>\<open>uuid\<close>, \<^verbatim>\<open>length\<close>): it throws a TypeError on \<^verbatim>\<open>null\<close>, reads
  the property of an object (in a property list, a later entry for a key overrides an
  earlier one), knows the \<^verbatim>\<open>length\<close> of arrays and strings, and is \<^verbatim>\<open>undefined\<close>
  otherwise.
\<close>

fun get_prop :: "json \<Rightarrow> string \<Rightarrow> js_error + json option" where
  "get_prop JNull k =
     Inl (JsError ''TypeError'' (''Cannot read properties of null (reading '' @ k @ '')''))"
| "get_prop (JObj kvs) k = Inr (map_of (rev kvs) k)"
| "get_prop (JArr xs) k = Inr (if k = ''length'' then Some (JNum (int (length xs))) else None)"
| "get_prop (JStr s) k = Inr (if k = ''length'' then Some (JNum (int (js_length s))) else None)"
| "get_prop (JBool b) k = Inr None"
| "get_prop (JNum i) k = Inr None"

text \<open>
  The arguments with which \<^verbatim>\<open>done\<close> is called: the error (\<open>None\<close> for \<^verbatim>\<open>null\<close>) and
  the identifiers. \<^verbatim>\<open>JSON.parse\<close> belongs to the platform and is a parameter: it
  returns the parsed value or the exception it throws.
\<close>

type_synonym done_args = "js_error option \<times> json"

definition no_responses_error :: js_error where
  "no_responses_error =
     JsError ''Error'' ''The cache server didn't respond with a responses property.''"

definition shim_success :: "(string \<Rightarrow> js_error + json) \<Rightarrow> string \<Rightarrow> done_args" where
  "shim_success JSON_parse responseBody =
     (case JSON_parse responseBody of
        Inl e \<Rightarrow> (Some e, JArr [])
      | Inr parsed \<Rightarrow>
          (case get_prop parsed ''responses'' of
             Inl e \<Rightarrow> (Some e, JArr [])
           | Inr None \<Rightarrow> (Some no_responses_error, JArr [])
           | Inr (Some ids) \<Rightarrow>
               (if truthy ids then (None, ids) else (Some no_responses_error, JArr []))))"

text \<open>
  The error handler receives the status text and the response body; \<open>bodyText\<close> is
  the text that \<^verbatim>\<open>JSON.stringify(responseBody)\<close> gives.
\<close>

definition shim_error :: "string \<Rightarrow> string \<Rightarrow> done_args" where
  "shim_error statusText bodyText =
     (Some (JsError ''Error''
        (''Error storing video ad in the cache: '' @ statusText @ '': '' @ bodyText)),
      JArr [])"

subsection \<open>store\<close>

text \<open>
  What the transport does with the request: it calls the success handler with a response
  body, or the error handler.
\<close>

datatype ajax_outcome = AjaxSuccess string | AjaxError string string

definition shimStorageCallback ::
  "(string \<Rightarrow> js_error + json) \<Rightarrow> ajax_outcome \<Rightarrow> done_args" where
  "shimStorageCallback JSON_parse outcome =
     (case outcome of
        AjaxSuccess responseBody \<Rightarrow> shim_success JSON_parse responseBody
      | AjaxError statusText bodyText \<Rightarrow> shim_error statusText bodyText)"

text \<open>
  \<^verbatim>\<open>store\<close> sends one request, \<^verbatim>\<open>{puts: bids.map(toStorageRequest)}\<close>, and \<^verbatim>\<open>done\<close>
  is called with what the shim makes of the transport's outcome.
\<close>

definition store ::
  "env \<Rightarrow> (string \<Rightarrow> js_error + json) \<Rightarrow> bid list \<Rightarrow> ajax_outcome \<Rightarrow> payload list \<times> done_args" where
  "store e JSON_parse bids outcome =
     (map (toStorageRequest e) bids, shimStorageCallback JSON_parse outcome)"

definition getCacheUrl :: "env \<Rightarrow> json option \<Rightarrow> string" where
  "getCacheUrl e ident = tmpl_str (cache_url e) @ ''?uuid='' @ tmpl ident"

subsection \<open>StoreOrchestrator: storeBatch\<close>

record ('a, 'c) entry =
  auctionInstance :: 'a
  bidResponse :: bid
  afterBidAdded :: 'c

text \<open>The calls that leave the module, in the order in which they are made.\<close>

datatype ('a, 'c) event =
    LogError string "bid list"
  | LogWarn string
  | AddBidToAuction 'a bid
  | AfterBidAdded 'c

definition rejected_key_warning :: string where
  "rejected_key_warning =
     ''Supplied video cache key was already in use by Prebid Cache; '' @
     ''caching attempt was rejected. Video bid must be discarded.''"

text \<open>The body of the \<^verbatim>\<open>forEach\<close> callback, for one identifier and its entry.\<close>

definition attribute_one ::
  "env \<Rightarrow> ('a, 'c) entry \<Rightarrow> json \<Rightarrow> js_error + (('a, 'c) entry \<times> ('a, 'c) event list)" where
  "attribute_one e en cacheId =
     (case get_prop cacheId ''uuid'' of
        Inl err \<Rightarrow> Inl err
      | Inr uuid \<Rightarrow>
          (if uuid = Some (JStr []) then Inr (en, [LogWarn rejected_key_warning])
           else
             (let b1 = (bidResponse en)\<lparr>videoCacheKey := uuid\<rparr>;
                  b2 = (if \<not> truthy_str (vastUrl b1)
                        then b1\<lparr>vastUrl := Some (getCacheUrl e (videoCacheKey b1))\<rparr>
                        else b1)
              in Inr (en\<lparr>bidResponse := b2\<rparr>,
                      [AddBidToAuction (auctionInstance en) b2,
                       AfterBidAdded (afterBidAdded en)]))))"

text \<open>
  \<^verbatim>\<open>cacheIds.forEach((cacheId, i) => ...)\<close> over \<^verbatim>\<open>batch[i]\<close>. The result is the batch
  with its bids as the loop leaves them, the events, and the exception that ended the
  loop, if any: reading \<^verbatim>\<open>uuid\<close> of \<^verbatim>\<open>null\<close> throws, and so does destructuring a
  missing \<^verbatim>\<open>batch[i]\<close>.
\<close>

type_synonym ('a, 'c) outcome = "('a, 'c) entry list \<times> ('a, 'c) event list \<times> js_error option"

fun forEach_ids ::
  "env \<Rightarrow> ('a, 'c) entry list \<Rightarrow> json list \<Rightarrow> ('a, 'c) outcome" where
  "forEach_ids e batch [] = (batch, [], None)"
| "forEach_ids e [] (cacheId # cacheIds) =
     ([], [], Some (JsError ''TypeError'' ''Cannot destructure batch[i] as it is undefined.''))"
| "forEach_ids e (en # batch) (cacheId # cacheIds) =
     (case attribute_one e en cacheId of
        Inl err \<Rightarrow> (en # batch, [], Some err)
      | Inr (en', evs) \<Rightarrow>
          (case forEach_ids e batch cacheIds of
             (batch', evs', thrown) \<Rightarrow> (en' # batch', evs @ evs', thrown)))"

text \<open>The callback that \<^verbatim>\<open>storeBatch\<close> passes to \<^verbatim>\<open>store\<close>.\<close>

definition store_done ::
  "env \<Rightarrow> ('a, 'c) entry list \<Rightarrow> done_args \<Rightarrow> ('a, 'c) outcome" where
  "store_done e batch args =
     (case args of
        (Some error, cacheIds) \<Rightarrow>
          (batch,
           [LogError (''Failed to save to the video cache: '' @ error_to_string error @
                      ''. Video bids will be discarded:'') (map bidResponse batch)],
           None)
      | (None, cacheIds) \<Rightarrow>
          (case get_prop cacheIds ''length'' of
             Inl err \<Rightarrow> (batch, [], Some err)
           | Inr len \<Rightarrow>
               (if len \<noteq> Some (JNum (int (length batch)))
                then (batch,
                      [LogError (''expected '' @ show_nat (length batch) @ '' cache IDs, got '' @
                                 tmpl len @ '' instead'') []],
                      None)
                else
                  (case cacheIds of
                     JArr ids \<Rightarrow> forEach_ids e batch ids
                   | _ \<Rightarrow>
                       (batch, [],
                        Some (JsError ''TypeError'' ''cacheIds.forEach is not a function''))))))"

definition storeBatch ::
  "env \<Rightarrow> (string \<Rightarrow> js_error + json) \<Rightarrow> ('a, 'c) entry list \<Rightarrow> ajax_outcome \<Rightarrow>
     payload list \<times> ('a, 'c) outcome" where
  "storeBatch e JSON_parse batch outcome =
     (let bids = map bidResponse batch
      in case store e JSON_parse bids outcome of
           (puts, args) \<Rightarrow> (puts, store_done e batch args))"

subsection \<open>LocalCacheStore\<close>

text \<open>
  Base64 with padding, of a sequence of bytes.
\<close>

definition b64_alphabet :: string where
  "b64_alphabet = ''ABCDEFGHIJKLMNOPQRSTUVWXYZabcdefghijklmnopqrstuvwxyz0123456789+/''"

definition b64_char :: "nat \<Rightarrow> char" where
  "b64_char n = b64_alphabet ! (n mod 64)"

fun base64 :: "string \<Rightarrow> string" where
  "base64 [] = []"
| "base64 [a] =
     (let x = (of_char a :: nat)
      in [b64_char (x div 4), b64_char ((x mod 4) * 16), CHR ''='', CHR ''=''])"
| "base64 [a, b] =
     (let x = (of_char a :: nat); y = (of_char b :: nat)
      in [b64_char (x div 4), b64_char ((x mod 4) * 16 + y div 16),
          b64_char ((y mod 16) * 4), CHR ''=''])"
| "base64 (a # b # c # rest) =
     (let x = (of_char a :: nat); y = (of_char b :: nat); z = (of_char c :: nat)
      in [b64_char (x div 4), b64_char ((x mod 4) * 16 + y div 16),
          b64_char ((y mod 16) * 4 + z div 64), b64_char (z mod 64)] @ base64 rest)"

text \<open>
  The code units of a string, one byte each, when every one of them is at most 255: a
  byte below 128 is its own code unit, and the two-byte sequences that start with
  \<open>0xC2\<close> or \<open>0xC3\<close> are the code units 128 to 255. Every other character has a code
  unit above 255, and the result is \<open>None\<close>.
\<close>

fun latin1_units :: "string \<Rightarrow> string option" where
  "latin1_units [] = Some []"
| "latin1_units [c] = (if (of_char c :: nat) < 0x80 then Some [c] else None)"
| "latin1_units (c # d # cs) =
     (let x = (of_char c :: nat); y = (of_char d :: nat)
      in if x < 0x80 then map_option (Cons c) (latin1_units (d # cs))
         else if (x = 0xC2 \<or> x = 0xC3) \<and> 0x80 \<le> y \<and> y < 0xC0
         then map_option (Cons (char_of ((x - 0xC0) * 64 + (y - 0x80)))) (latin1_units cs)
         else None)"

text \<open>
  \<^verbatim>\<open>btoa\<close> of the platform: it throws an InvalidCharacterError when the string has a
  code unit above 255, and otherwise returns the base64 text of the code units.
\<close>

definition invalid_character_error :: js_error where
  "invalid_character_error =
     JsError ''InvalidCharacterError''
       ''The string to be encoded contains characters outside of the Latin1 range.''"

definition btoa :: "string \<Rightarrow> js_error + string" where
  "btoa s =
     (case latin1_units s of
        None \<Rightarrow> Inl invalid_character_error
      | Some units \<Rightarrow> Inr (base64 units))"

text \<open>The process-wide map \<^verbatim>\<open>vastsLocalCache\<close>.\<close>

type_synonym local_cache = "string \<rightharpoonup> string"

definition LOCAL_CACHE_MOCK_URL :: string where
  "LOCAL_CACHE_MOCK_URL = ''https://local.prebid.org/cache?bidder=''"

definition getLocalCacheBidId :: "bid \<Rightarrow> string" where
  "getLocalCacheBidId b = tmpl_str (bidderCode b) @ ''_'' @ tmpl_str (adId b)"

text \<open>
  \<^verbatim>\<open>storeLocally\<close> has no handler around \<^verbatim>\<open>btoa\<close>: when that throws, the exception
  leaves the function before the bid or the map is written.
\<close>

definition storeLocally :: "bid \<Rightarrow> local_cache \<Rightarrow> js_error + (bid \<times> local_cache)" where
  "storeLocally b vastsLocalCache =
     (let vastValue = getVastValue b
      in case btoa vastValue of
           Inl err \<Rightarrow> Inl err
         | Inr encoded \<Rightarrow>
             (let dataUri = ''data:text/xml;base64,'' @ encoded;
                  b' = b\<lparr>vastUrl := Some dataUri\<rparr>
              in Inr (b', vastsLocalCache(getLocalCacheBidId b' \<mapsto> dataUri))))"

text \<open>
  \<^verbatim>\<open>subject.replace(pattern, replacement)\<close> with a string pattern: the first occurrence
  of the pattern is replaced, and in the replacement text \<^verbatim>\<open>$$\<close>, \<^verbatim>\<open>$&\<close>,
  \<^verbatim>\<open>$`\<close> and \<^verbatim>\<open>$'\<close> stand for a dollar sign, the matched text, the text before and
  the text after the match.
\<close>

fun find_first :: "string \<Rightarrow> string \<Rightarrow> (string \<times> string) option" where
  "find_first pat [] = (if pat = [] then Some ([], []) else None)"
| "find_first pat (c # cs) =
     (if prefix pat (c # cs) then Some ([], drop (length pat) (c # cs))
      else (case find_first pat cs of
              None \<Rightarrow> None
            | Some (front, back) \<Rightarrow> Some (c # front, back)))"

fun get_substitution :: "string \<Rightarrow> string \<Rightarrow> string \<Rightarrow> string \<Rightarrow> string" where
  "get_substitution matched front back [] = []"
| "get_substitution matched front back [c] = [c]"
| "get_substitution matched front back (c # d # rest) =
     (if c = CHR ''$'' \<and> d = CHR ''$''
        then CHR ''$'' # get_substitution matched front back rest
      else if c = CHR ''$'' \<and> d = CHR ''&''
        then matched @ get_substitution matched front back rest
      else if c = CHR ''$'' \<and> d = CHR ''`''
        then front @ get_substitution matched front back rest
      else if c = CHR ''$'' \<and> d = CHR 0x27
        then back @ get_substitution matched front back rest
      else c # get_substitution matched front back (d # rest))"

definition js_replace :: "string \<Rightarrow> string \<Rightarrow> string \<Rightarrow> string" where
  "js_replace subject pat replacement =
     (case find_first pat subject of
        None \<Rightarrow> subject
      | Some (front, back) \<Rightarrow>
          front @ get_substitution pat front back replacement @ back)"

text \<open>A value that may be \<^verbatim>\<open>null\<close>, as a template literal or \<^verbatim>\<open>+\<close> renders it.\<close>

definition tmpl_null :: "string option \<Rightarrow> string" where
  "tmpl_null v = (case v of None \<Rightarrow> ''null'' | Some s \<Rightarrow> s)"

text \<open>
  \<^verbatim>\<open>getLocalCachedBidWithGam\<close>. The platform is a parameter: \<open>cust_params\<close> is what
  \<^verbatim>\<open>new URL\<close> and \<^verbatim>\<open>URLSearchParams\<close> give for the tag URL, the values of
  \<^verbatim>\<open>hb_bidder\<close> and \<^verbatim>\<open>hb_adid\<close> (\<open>None\<close> for \<^verbatim>\<open>null\<close>) or the exception thrown;
  \<open>fetch\<close> gives the \<^verbatim>\<open>ok\<close> flag and the text of the response, or the rejection.
  The result is the exception, or the returned value (\<open>None\<close> for \<^verbatim>\<open>undefined\<close>)
  with the errors logged.
\<close>

definition getLocalCachedBidWithGam ::
  "(string \<Rightarrow> js_error + (string option \<times> string option)) \<Rightarrow>
   (string \<Rightarrow> js_error + (bool \<times> string)) \<Rightarrow>
   local_cache \<Rightarrow> string \<Rightarrow> js_error + (string option \<times> string list)" where
  "getLocalCachedBidWithGam cust_params fetch vastsLocalCache adTagUrl =
     (case cust_params adTagUrl of
        Inl err \<Rightarrow> Inl err
      | Inr (hb_bidder, hb_adid) \<Rightarrow>
          (case fetch adTagUrl of
             Inl err \<Rightarrow> Inl err
           | Inr (ok, text) \<Rightarrow>
               (if \<not> ok
                then Inr (None, [''Unable to fetch valid response from Google Ad Manager''])
                else
                  (let gamVastWrapper = text;
                       bidVastDataUri =
                         vastsLocalCache (tmpl_null hb_bidder @ ''_'' @ tmpl_null hb_adid);
                       mockUrl = LOCAL_CACHE_MOCK_URL @ tmpl_null hb_bidder;
                       combinedVast = js_replace gamVastWrapper mockUrl (tmpl_str bidVastDataUri)
                   in Inr (Some combinedVast, [])))))"

text \<open>
  The expiry handler:
  \<^verbatim>\<open>auction.getBidsReceived().forEach((bid) => vastsLocalCache.delete(getLocalCacheBidId(bid)))\<close>.
\<close>

definition cleanupHandler :: "bid list \<Rightarrow> local_cache \<Rightarrow> local_cache" where
  "cleanupHandler bidsReceived vastsLocalCache =
     fold (\<lambda>b m. m(getLocalCacheBidId b := None)) bidsReceived vastsLocalCache"

subsection \<open>Configuration\<close>

text \<open>
  The \<^verbatim>\<open>cache\<close> configuration object, and the module variables that the configuration
  callback sets. A module variable is \<open>None\<close> while it is \<^verbatim>\<open>undefined\<close>.
\<close>

record cache_config =
  cfg_batchSize :: "json option"
  cfg_batchTimeout :: "json option"
  cfg_useLocal :: bool

record settings =
  batchSize :: "int option"
  batchTimeout :: "int option"
  cleanupRegistered :: bool

definition initial_settings :: settings where
  "initial_settings = \<lparr>batchSize = None, batchTimeout = None, cleanupRegistered = False\<rparr>"

definition positive_number_or :: "json option \<Rightarrow> int \<Rightarrow> int" where
  "positive_number_or v d = (case v of Some (JNum n) \<Rightarrow> (if n > 0 then n else d) | _ \<Rightarrow> d)"

definition on_cache_config :: "cache_config \<Rightarrow> settings \<Rightarrow> settings" where
  "on_cache_config cache s =
     s\<lparr>batchSize := Some (positive_number_or (cfg_batchSize cache) 1),
       batchTimeout := Some (positive_number_or (cfg_batchTimeout cache) 0),
       cleanupRegistered := (cleanupRegistered s \<or> cfg_useLocal cache)\<rparr>"

subsection \<open>Batcher: batchingCache\<close>

text \<open>
  The closure state of \<^verbatim>\<open>batchingCache\<close> (\<open>batches\<close>, \<open>debouncing\<close>) and the number of
  flush callbacks handed to \<^verbatim>\<open>timeout\<close> that have not run yet. A comparison with an
  undefined module variable is false.
\<close>

record 'e batcher =
  batches :: "'e list list"
  debouncing :: bool
  timers :: nat

definition initial_batcher :: "'e batcher" where
  "initial_batcher = \<lparr>batches = [[]], debouncing = False, timers = 0\<rparr>"

definition ge_setting :: "nat \<Rightarrow> int option \<Rightarrow> bool" where
  "ge_setting n v = (case v of None \<Rightarrow> False | Some k \<Rightarrow> int n \<ge> k)"

definition positive_setting :: "int option \<Rightarrow> bool" where
  "positive_setting v = (case v of None \<Rightarrow> False | Some t \<Rightarrow> t > 0)"

text \<open>
  The flush callback: \<^verbatim>\<open>batches.forEach(cache); batches = [[]]; debouncing = false\<close>.
  The second component lists the batches passed to \<^verbatim>\<open>cache\<close>, one call each.
\<close>

definition flush :: "'e batcher \<Rightarrow> 'e batcher \<times> 'e list list" where
  "flush st = (st\<lparr>batches := [[]], debouncing := False\<rparr>, batches st)"

text \<open>
  The function returned by \<^verbatim>\<open>batchingCache\<close>. Reading the last batch of an empty
  \<open>batches\<close> would throw.
\<close>

definition submit ::
  "settings \<Rightarrow> 'e \<Rightarrow> 'e batcher \<Rightarrow> js_error + ('e batcher \<times> 'e list list)" where
  "submit s en st =
     (if batches st = []
      then Inl (JsError ''TypeError'' ''Cannot read properties of undefined (reading length)'')
      else
        (let bs1 = (if ge_setting (length (last (batches st))) (batchSize s)
                    then batches st @ [[]] else batches st);
             bs2 = butlast bs1 @ [last bs1 @ [en]];
             st2 = st\<lparr>batches := bs2\<rparr>
         in if \<not> debouncing st2
            then (let st3 = st2\<lparr>debouncing := True\<rparr>
                  in if positive_setting (batchTimeout s)
                     then Inr (st3\<lparr>timers := timers st3 + 1\<rparr>, [])
                     else Inr (flush st3))
            else Inr (st2, [])))"

text \<open>A pending timer fires and runs the flush callback.\<close>

definition fire :: "'e batcher \<Rightarrow> 'e batcher \<times> 'e list list" where
  "fire st = (if timers st = 0 then (st, []) else flush (st\<lparr>timers := timers st - 1\<rparr>))"

datatype 'e action = Submit 'e | Fire

fun run ::
  "settings \<Rightarrow> 'e action list \<Rightarrow> 'e batcher \<Rightarrow> js_error + ('e batcher \<times> 'e list list)" where
  "run s [] st = Inr (st, [])"
| "run s (Submit en # as) st =
     (case submit s en st of
        Inl err \<Rightarrow> Inl err
      | Inr (st', calls) \<Rightarrow>
          (case run s as st' of
             Inl err \<Rightarrow> Inl err
           | Inr (st'', calls') \<Rightarrow> Inr (st'', calls @ calls')))"
| "run s (Fire # as) st =
     (case fire st of
        (st', calls) \<Rightarrow>
          (case run s as st' of
             Inl err \<Rightarrow> Inl err
           | Inr (st'', calls') \<Rightarrow> Inr (st'', calls @ calls')))"

section \<open>Notions used to state the properties\<close>

subsection \<open>Attribution of identifiers to bids\<close>

text \<open>
  The store response protocol: the element at a position of \<^verbatim>\<open>responses\<close> is an object
  whose \<^verbatim>\<open>uuid\<close> is the string \<open>ident\<close>.
\<close>

definition has_uuid :: "json \<Rightarrow> string \<Rightarrow> bool" where
  "has_uuid cacheId ident = (get_prop cacheId ''uuid'' = Inr (Some (JStr ident)))"

text \<open>The retrieval URL template \<^verbatim>\<open><cacheBaseUrl>?uuid=<identifier>\<close>.\<close>

definition retrieval_url :: "env \<Rightarrow> string \<Rightarrow> string" where
  "retrieval_url e ident = tmpl_str (cache_url e) @ ''?uuid='' @ ident"

text \<open>
  What a successful flush is expected to make of a bid that receives a non-empty
  identifier: the identifier is its cache key, and the retrieval URL is its playback URL
  exactly when the bid had none (\<^verbatim>\<open>vastUrl\<close> absent or empty).
\<close>

definition admitted :: "env \<Rightarrow> bid \<Rightarrow> string \<Rightarrow> bid" where
  "admitted e b ident =
     b\<lparr>vastUrl := (if truthy_str (vastUrl b) then vastUrl b else Some (retrieval_url e ident)),
       videoCacheKey := Some (JStr ident)\<rparr>"

text \<open>
  The expected result at one position: the entry as the flush leaves it, and the calls
  made for it. For the empty identifier the bid is left alone and only a warning is
  logged; otherwise the admitted bid goes to the acceptance function and the completion
  callback of the entry is called.
\<close>

definition position_result ::
  "env \<Rightarrow> ('a, 'c) entry \<Rightarrow> string \<Rightarrow> ('a, 'c) entry \<times> ('a, 'c) event list" where
  "position_result e en ident =
     (if ident = [] then (en, [LogWarn rejected_key_warning])
      else (en\<lparr>bidResponse := admitted e (bidResponse en) ident\<rparr>,
            [AddBidToAuction (auctionInstance en) (admitted e (bidResponse en) ident),
             AfterBidAdded (afterBidAdded en)]))"

text \<open>
  A store call that failed: the transport reported an error, or the body is not JSON,
  or the parsed body has no usable \<^verbatim>\<open>responses\<close> (the property is absent, reading it
  throws because the body is \<^verbatim>\<open>null\<close>, or its value is falsy).
\<close>

definition store_failed :: "(string \<Rightarrow> js_error + json) \<Rightarrow> ajax_outcome \<Rightarrow> bool" where
  "store_failed JSON_parse outcome =
     (case outcome of
        AjaxError statusText bodyText \<Rightarrow> True
      | AjaxSuccess body \<Rightarrow>
          (case JSON_parse body of
             Inl err \<Rightarrow> True
           | Inr parsed \<Rightarrow>
               (case get_prop parsed ''responses'' of
                  Inl err \<Rightarrow> True
                | Inr None \<Rightarrow> True
                | Inr (Some ids) \<Rightarrow> \<not> truthy ids)))"

subsection \<open>Example data\<close>

definition example_env :: env where
  "example_env =
     \<lparr>cache_vasttrack = True, cache_url = Some ''https://c.example/cache'',
      auction_start = (\<lambda>b. if auctionId b = Some ''au1'' then Some 1000 else None)\<rparr>"

definition example_bid :: bid where
  "example_bid =
     \<lparr>bidder = Some ''nexverse'', bidderCode = Some ''nexverse'', adId = Some ''a1'',
      requestId = Some ''r1'', auctionId = Some ''au1'', vastXml = None,
      vastUrl = Some ''http://x/vast.xml'', vastImpUrl = NoTrackers, ttl = 60,
      customCacheKey = None, videoCacheKey = None\<rparr>"

definition example_xml_bid :: bid where
  "example_xml_bid =
     \<lparr>bidder = Some ''other'', bidderCode = Some ''other'', adId = Some ''a2'',
      requestId = Some ''r2'', auctionId = Some ''au2'', vastXml = Some ''<VAST/>'',
      vastUrl = None, vastImpUrl = OneTracker ''http://t/imp'', ttl = 300,
      customCacheKey = Some ''k2'', videoCacheKey = None\<rparr>"

definition example_entry :: "(string, string) entry" where
  "example_entry =
     \<lparr>auctionInstance = ''auction-1'', bidResponse = example_bid, afterBidAdded = ''done-1''\<rparr>"

definition example_xml_entry :: "(string, string) entry" where
  "example_xml_entry =
     \<lparr>auctionInstance = ''auction-2'', bidResponse = example_xml_bid,
      afterBidAdded = ''done-2''\<rparr>"

definition example_third_bid :: bid where
  "example_third_bid =
     \<lparr>bidder = Some ''third'', bidderCode = Some ''third'', adId = Some ''a3'',
      requestId = Some ''r3'', auctionId = Some ''au1'', vastXml = Some ''<VAST/>'',
      vastUrl = None, vastImpUrl = NoTrackers, ttl = 120,
      customCacheKey = None, videoCacheKey = None\<rparr>"

definition example_third_entry :: "(string, string) entry" where
  "example_third_entry =
     \<lparr>auctionInstance = ''auction-1'', bidResponse = example_third_bid,
      afterBidAdded = ''done-3''\<rparr>"

text \<open>
  A bid whose VAST document holds the euro sign, a character with a code unit above 255
  (the bytes \<open>E2 82 AC\<close> in UTF-8).
\<close>

definition euro_vast :: string where
  "euro_vast = ''<VAST>'' @ [CHR 0xE2, CHR 0x82, CHR 0xAC] @ ''</VAST>''"

definition euro_bid :: bid where
  "euro_bid =
     \<lparr>bidder = Some ''nexverse'', bidderCode = Some ''nexverse'', adId = Some ''a4'',
      requestId = Some ''r4'', auctionId = Some ''au1'', vastXml = Some euro_vast,
      vastUrl = None, vastImpUrl = NoTrackers, ttl = 60,
      customCacheKey = None, videoCacheKey = None\<rparr>"

text \<open>A \<^verbatim>\<open>JSON.parse\<close> that knows a few bodies and rejects every other one.\<close>

definition example_parse :: "string \<Rightarrow> js_error + json" where
  \<open>example_parse body =
     (if body = ''{"responses":[{"uuid":"u1"},{"uuid":""}]}''
        then Inr (JObj [(''responses'',
                         JArr [JObj [(''uuid'', JStr ''u1'')], JObj [(''uuid'', JStr [])]])])
      else if body = ''{"responses":[{"uuid":"u1"}]}''
        then Inr (JObj [(''responses'', JArr [JObj [(''uuid'', JStr ''u1'')]])])
      else if body = ''{}'' then Inr (JObj [])
      else if body = ''null'' then Inr JNull
      else Inl (JsError ''SyntaxError'' ''Unexpected token''))\<close>

text \<open>A \<^verbatim>\<open>JSON.parse\<close> for a response with a \<^verbatim>\<open>null\<close> element.\<close>

definition null_element_parse :: "string \<Rightarrow> js_error + json" where
  \<open>null_element_parse body =
     (if body = ''{"responses":[{"uuid":"u1"},null,{"uuid":"u3"}]}''
        then Inr (JObj [(''responses'',
                         JArr [JObj [(''uuid'', JStr ''u1'')], JNull,
                               JObj [(''uuid'', JStr ''u3'')]])])
      else Inl (JsError ''SyntaxError'' ''Unexpected token''))\<close>

definition null_element_body :: string where
  \<open>null_element_body = ''{"responses":[{"uuid":"u1"},null,{"uuid":"u3"}]}''\<close>

definition example_settings :: settings where
  "example_settings = \<lparr>batchSize = Some 2, batchTimeout = Some 50, cleanupRegistered = False\<rparr>"

definition example_cache_config :: cache_config where
  "example_cache_config =
     \<lparr>cfg_batchSize = Some (JNum 2), cfg_batchTimeout = Some (JStr ''50''), cfg_useLocal = True\<rparr>"

definition example_cust_params :: "string \<Rightarrow> js_error + (string option \<times> string option)" where
  "example_cust_params url = Inr (Some ''nexverse'', Some ''a1'')"

definition example_doc :: string where
  "example_doc =
     ''<VASTAdTagURI><![CDATA[https://local.prebid.org/cache?bidder=nexverse]]></VASTAdTagURI>''"

definition empty_cache :: local_cache where
  "empty_cache = Map.empty"

definition example_fetch :: "string \<Rightarrow> js_error + (bool \<times> string)" where
  "example_fetch url = Inr (True, example_doc)"

subsection \<open>Content resolution and the local cache\<close>

text \<open>
  The VAST content of a bid as the specification resolves it: \<^verbatim>\<open>vastXml\<close> verbatim when
  present and non-empty, otherwise the wrapper around \<^verbatim>\<open>vastUrl\<close> with the impression
  tracker field of the bid.
\<close>

definition vast_content :: "bid \<Rightarrow> string" where
  "vast_content b =
     (case vastXml b of
        Some (c # cs) \<Rightarrow> c # cs
      | _ \<Rightarrow> wrapURI (tmpl_str (vastUrl b)) (vastImpUrl b))"

text \<open>The data URI of a base64 text.\<close>

definition data_uri :: "string \<Rightarrow> string" where
  "data_uri encoded = ''data:text/xml;base64,'' @ encoded"

text \<open>
  The placeholder \<^verbatim>\<open><fixedPrefix>?bidder=<bidderName>\<close> and the key of the local cache,
  for the bidder and the ad identifier recovered from the tag URL.
\<close>

definition placeholder :: "string option \<Rightarrow> string" where
  "placeholder hb_bidder = ''https://local.prebid.org/cache?bidder='' @ tmpl_null hb_bidder"

definition cache_key :: "string option \<Rightarrow> string option \<Rightarrow> string" where
  "cache_key hb_bidder hb_adid = tmpl_null hb_bidder @ ''_'' @ tmpl_null hb_adid"

text \<open>
  The first occurrence of \<open>pat\<close> in \<open>doc\<close> is the one between \<open>front\<close> and \<open>back\<close>:
  no occurrence starts earlier.
\<close>

definition first_at :: "string \<Rightarrow> string \<Rightarrow> string \<Rightarrow> string \<Rightarrow> bool" where
  "first_at pat doc front back =
     (doc = front @ pat @ back \<and> \<not> sublist pat (front @ butlast pat))"

subsection \<open>Configuration and batches\<close>

definition positive_number :: "json option \<Rightarrow> bool" where
  "positive_number v = (case v of Some (JNum n) \<Rightarrow> 0 < n | _ \<Rightarrow> False)"

text \<open>Every batch of a list holds at most \<open>k\<close> entries.\<close>

definition bounded :: "nat \<Rightarrow> 'e list list \<Rightarrow> bool" where
  "bounded k bs = list_all (\<lambda>b. length b \<le> k) bs"

text \<open>
  The accumulator inside a debounce window: every batch but the last is full, and the
  last one holds between one and \<open>k\<close> entries.
\<close>

definition filled :: "nat \<Rightarrow> 'e list list \<Rightarrow> bool" where
  "filled k bs =
     (bs \<noteq> [] \<and> list_all (\<lambda>b. length b = k) (butlast bs) \<and>
      0 < length (last bs) \<and> length (last bs) \<le> k)"

subsection \<open>Elements of a VAST document\<close>

text \<open>
  The number of opening tags \<open>tag\<close> in a document, read as an XML parser reads it: the
  text of a CDATA section, from \<^verbatim>\<open><![CDATA[\<close> to the next \<^verbatim>\<open>]]>\<close>, is character data
  and holds no tags.
\<close>

fun count_tag :: "string \<Rightarrow> bool \<Rightarrow> string \<Rightarrow> nat" where
  "count_tag tag in_cdata [] = 0"
| "count_tag tag in_cdata (c # cs) =
     (if in_cdata
      then (if prefix '']]>'' (c # cs) then count_tag tag False cs else count_tag tag True cs)
      else if prefix ''<![CDATA['' (c # cs) then count_tag tag True cs
      else (if prefix tag (c # cs) then 1 else 0) + count_tag tag False cs)"

text \<open>A text that can stand inside a CDATA section: it does not contain \<^verbatim>\<open>]]>\<close>.\<close>

definition cdata_safe :: "string \<Rightarrow> bool" where
  "cdata_safe s = (\<not> sublist '']]>'' s)"

text \<open>
  The wrapper document around its impression elements: everything up to them, with the
  tag URI in its CDATA section, and everything after them, with the empty
  \<^verbatim>\<open>Creatives\<close> element.
\<close>

definition wrapper_head :: "string \<Rightarrow> string" where
  \<open>wrapper_head uri =
     ''<VAST version="3.0">'' @ nl @
     ''    <Ad>'' @ nl @
     ''      <Wrapper>'' @ nl @
     ''        <AdSystem>prebid.org wrapper</AdSystem>'' @ nl @
     ''        <VASTAdTagURI><![CDATA['' @ uri @ '']]></VASTAdTagURI>'' @ nl @
     ''        ''\<close>

definition wrapper_tail :: string where
  "wrapper_tail =
     nl @ ''        <Creatives></Creatives>'' @ nl @
     ''      </Wrapper>'' @ nl @
     ''    </Ad>'' @ nl @
     ''  </VAST>''"

text \<open>A tag URI that closes the CDATA section and brings an element of its own.\<close>

definition injecting_uri :: string where
  "injecting_uri = '']]><Impression><![CDATA[http://t/imp]]></Impression><![CDATA[''"

section \<open>Properties\<close>

subsection \<open>Auxiliary facts\<close>

lemma show_int_of_nat: "show_int (int n) = show_nat n"
  by (simp add: show_int_def)

lemma store_success:
  assumes "JSON_parse body = Inr parsed"
    and "get_prop parsed ''responses'' = Inr (Some (JArr ids))"
  shows "storeBatch e JSON_parse batch (AjaxSuccess body) =
           (map (toStorageRequest e) (map bidResponse batch), store_done e batch (None, JArr ids))"
  using assms
  by (simp add: storeBatch_def store_def shimStorageCallback_def shim_success_def)

lemma store_done_mismatch:
  assumes "length ids \<noteq> length batch"
  shows "store_done e batch (None, JArr ids) =
           (batch,
            [LogError (''expected '' @ show_nat (length batch) @ '' cache IDs, got '' @
                       show_nat (length ids) @ '' instead'') []],
            None)"
  using assms by (simp add: store_done_def tmpl_def show_int_of_nat)

lemma attribute_one_uuid:
  assumes "has_uuid cacheId ident"
  shows "attribute_one e en cacheId = Inr (position_result e en ident)"
  using assms
  by (simp add: has_uuid_def attribute_one_def position_result_def admitted_def Let_def
      getCacheUrl_def retrieval_url_def tmpl_def)

lemma forEach_ids_pointwise:
  assumes "list_all2 has_uuid ids idents" and "length idents = length batch"
  shows "forEach_ids e batch ids =
           (map fst (map2 (position_result e) batch idents),
            concat (map snd (map2 (position_result e) batch idents)), None)"
  using assms
proof (induction ids idents arbitrary: batch rule: list_all2_induct)
  case Nil
  then show ?case by simp
next
  case (Cons c cs u us)
  then obtain en rest where b: "batch = en # rest" and l: "length us = length rest"
    by (cases batch) auto
  show ?case
    using Cons.IH [OF l] Cons.hyps(1)
    by (simp add: b attribute_one_uuid split: prod.split)
qed

lemma store_failed_args:
  assumes "store_failed JSON_parse outcome"
  shows "\<exists>err. shimStorageCallback JSON_parse outcome = (Some err, JArr [])"
  using assms
  by (auto simp: store_failed_def shimStorageCallback_def shim_success_def shim_error_def
      split: ajax_outcome.splits sum.splits option.splits)

subsection \<open>StoreOrchestrator\<close>

text \<open>
  Claim C1. When the store call succeeds (the body parses and its \<^verbatim>\<open>responses\<close> is an
  array) but the number of identifiers differs from the size of the batch, the flush
  leaves every entry of the batch as it was (no bid gets a \<^verbatim>\<open>videoCacheKey\<close>), and the
  only call it makes is one \<^verbatim>\<open>logError\<close> whose message names the expected and the
  actual count: no bid reaches the acceptance function and no completion callback runs.
\<close>

theorem count_mismatch_discards_batch:
  assumes "JSON_parse body = Inr parsed"
    and "get_prop parsed ''responses'' = Inr (Some (JArr ids))"
    and "length ids \<noteq> length batch"
  shows "snd (storeBatch e JSON_parse batch (AjaxSuccess body)) =
           (batch,
            [LogError (''expected '' @ show_nat (length batch) @ '' cache IDs, got '' @
                       show_nat (length ids) @ '' instead'') []],
            None)"
  using assms by (simp add: store_success store_done_mismatch)

theorem count_mismatch_discards_batch_witness:
  \<open>example_parse ''{"responses":[{"uuid":"u1"}]}'' =
       Inr (JObj [(''responses'', JArr [JObj [(''uuid'', JStr ''u1'')]])]) \<and>
   length [JObj [(''uuid'', JStr ''u1'')]] \<noteq> length [example_entry, example_xml_entry] \<and>
   snd (storeBatch example_env example_parse [example_entry, example_xml_entry]
          (AjaxSuccess ''{"responses":[{"uuid":"u1"}]}'')) =
     ([example_entry, example_xml_entry],
      [LogError ''expected 2 cache IDs, got 1 instead'' []], None)\<close>
  using count_mismatch_discards_batch
    [of example_parse \<open>''{"responses":[{"uuid":"u1"}]}''\<close>
        "JObj [(''responses'', JArr [JObj [(''uuid'', JStr ''u1'')]])]"
        "[JObj [(''uuid'', JStr ''u1'')]]" "[example_entry, example_xml_entry]" example_env]
  by (simp add: example_parse_def show_nat.simps)

text \<open>
  A response in which every element is an object with a string \<^verbatim>\<open>uuid\<close>, one for each
  entry of the batch. The flush treats the positions one by one and in order, and what
  it does at a position depends on that position alone: for the empty identifier the
  entry is left as it was and only a warning is logged; for a non-empty identifier the
  bid gets it as \<^verbatim>\<open>videoCacheKey\<close>, gets the retrieval URL as \<^verbatim>\<open>vastUrl\<close> exactly when it
  had no \<^verbatim>\<open>vastUrl\<close>, is passed to the acceptance function, and the completion callback
  of the entry is called.
\<close>

theorem identifiers_attributed_by_position:
  assumes "JSON_parse body = Inr parsed"
    and "get_prop parsed ''responses'' = Inr (Some (JArr ids))"
    and "list_all2 has_uuid ids idents"
    and "length idents = length batch"
  shows "snd (storeBatch e JSON_parse batch (AjaxSuccess body)) =
           (map fst (map2 (position_result e) batch idents),
            concat (map snd (map2 (position_result e) batch idents)), None)"
proof -
  have "length ids = length batch"
    using assms(3,4) by (simp add: list_all2_lengthD)
  then have "store_done e batch (None, JArr ids) = forEach_ids e batch ids"
    by (simp add: store_done_def)
  then show ?thesis
    using assms by (simp add: store_success forEach_ids_pointwise)
qed

theorem identifiers_attributed_by_position_witness:
  \<open>snd (storeBatch example_env example_parse [example_xml_entry, example_entry]
          (AjaxSuccess ''{"responses":[{"uuid":"u1"},{"uuid":""}]}'')) =
     ([example_xml_entry\<lparr>bidResponse :=
          example_xml_bid\<lparr>vastUrl := Some ''https://c.example/cache?uuid=u1'',
                          videoCacheKey := Some (JStr ''u1'')\<rparr>\<rparr>,
       example_entry],
      [AddBidToAuction ''auction-2''
         (example_xml_bid\<lparr>vastUrl := Some ''https://c.example/cache?uuid=u1'',
                          videoCacheKey := Some (JStr ''u1'')\<rparr>),
       AfterBidAdded ''done-2'',
       LogWarn rejected_key_warning],
      None)\<close>
  using identifiers_attributed_by_position
    [of example_parse \<open>''{"responses":[{"uuid":"u1"},{"uuid":""}]}''\<close>
        "JObj [(''responses'',
                JArr [JObj [(''uuid'', JStr ''u1'')], JObj [(''uuid'', JStr [])]])]"
        "[JObj [(''uuid'', JStr ''u1'')], JObj [(''uuid'', JStr [])]]"
        "[''u1'', []]" "[example_xml_entry, example_entry]" example_env]
  by (simp add: example_parse_def has_uuid_def position_result_def admitted_def
      retrieval_url_def tmpl_str_def truthy_str_def example_env_def example_xml_entry_def
      example_xml_bid_def)

text \<open>
  Claim C2. In a successful flush with as many identifiers as entries, a position with a
  non-empty identifier is to get that identifier, reach the acceptance function and have
  its completion callback called, whatever the other positions hold. This fails on a
  response with a \<^verbatim>\<open>null\<close> element, which the documentation of the callback allows:
  reading \<^verbatim>\<open>uuid\<close> of \<^verbatim>\<open>null\<close> throws inside the loop. Here the first bid is admitted,
  the exception ends the loop at the second position, and the third bid, whose identifier
  is \<^verbatim>\<open>u3\<close>, gets no cache key, is not passed on, and its callback is not called.
\<close>

theorem null_element_stops_attribution:
  "snd (storeBatch example_env null_element_parse
          [example_xml_entry, example_entry, example_third_entry]
          (AjaxSuccess null_element_body)) =
     ([example_xml_entry\<lparr>bidResponse :=
          example_xml_bid\<lparr>vastUrl := Some ''https://c.example/cache?uuid=u1'',
                          videoCacheKey := Some (JStr ''u1'')\<rparr>\<rparr>,
       example_entry, example_third_entry],
      [AddBidToAuction ''auction-2''
         (example_xml_bid\<lparr>vastUrl := Some ''https://c.example/cache?uuid=u1'',
                          videoCacheKey := Some (JStr ''u1'')\<rparr>),
       AfterBidAdded ''done-2''],
      Some (JsError ''TypeError'' ''Cannot read properties of null (reading uuid)''))"
  by (simp add: storeBatch_def store_def shimStorageCallback_def shim_success_def
      null_element_parse_def null_element_body_def store_done_def attribute_one_def
      getCacheUrl_def tmpl_def tmpl_str_def truthy_str_def Let_def example_env_def
      example_xml_entry_def example_xml_bid_def)

text \<open>
  Claim C7. When the store call fails (the transport reports an error, or the body is
  not parseable JSON, or it parses but has no \<^verbatim>\<open>responses\<close>), the completion callback
  receives an error together with the empty identifier list, and the flush leaves every
  entry of the batch as it was and only logs the error: no bid gets a cache key, none
  reaches the acceptance function, no completion callback runs.
\<close>

theorem failed_store_discards_batch:
  assumes "store_failed JSON_parse outcome"
  shows "\<exists>err. shimStorageCallback JSON_parse outcome = (Some err, JArr []) \<and>
           snd (storeBatch e JSON_parse batch outcome) =
             (batch,
              [LogError (''Failed to save to the video cache: '' @ error_to_string err @
                         ''. Video bids will be discarded:'') (map bidResponse batch)],
              None)"
proof -
  obtain err where a: "shimStorageCallback JSON_parse outcome = (Some err, JArr [])"
    using store_failed_args [OF assms] by blast
  then show ?thesis
    by (simp add: storeBatch_def store_def store_done_def)
qed

theorem failed_store_discards_batch_witness:
  "store_failed example_parse (AjaxSuccess ''{}'') \<and>
   shimStorageCallback example_parse (AjaxSuccess ''{}'') = (Some no_responses_error, JArr []) \<and>
   snd (storeBatch example_env example_parse [example_entry, example_xml_entry]
          (AjaxSuccess ''{}'')) =
     ([example_entry, example_xml_entry],
      [LogError (''Failed to save to the video cache: '' @ error_to_string no_responses_error @
                 ''. Video bids will be discarded:'') [example_bid, example_xml_bid]],
      None)"
proof -
  have f: "store_failed example_parse (AjaxSuccess ''{}'')"
    by (simp add: store_failed_def example_parse_def)
  have s: "shimStorageCallback example_parse (AjaxSuccess ''{}'') =
             (Some no_responses_error, JArr [])"
    by (simp add: shimStorageCallback_def shim_success_def example_parse_def)
  show ?thesis
    using f s failed_store_discards_batch
      [OF f, of example_env "[example_entry, example_xml_entry]"]
    by (simp add: example_entry_def example_xml_entry_def)
qed

subsection \<open>RequestTranslator\<close>

text \<open>
  Claim C3. For every bid, the \<^verbatim>\<open>ttlseconds\<close> of the storage payload is the \<^verbatim>\<open>ttl\<close> of
  the bid plus 15, whatever the configuration and the auction index are.
\<close>

theorem ttlseconds_is_ttl_plus_15:
  "p_ttlseconds (toStorageRequest e b) = ttl b + 15"
  by (simp add: toStorageRequest_def Let_def ttlBufferInSeconds_def split: option.split)

theorem ttlseconds_is_ttl_plus_15_witness:
  "p_ttlseconds (toStorageRequest example_env example_bid) = 75"
  using ttlseconds_is_ttl_plus_15 [of example_env example_bid]
  by (simp add: example_bid_def)

subsection \<open>Content resolution and LocalCacheStore\<close>

text \<open>
  For every bid, \<^verbatim>\<open>toStorageRequest\<close> and \<^verbatim>\<open>storeLocally\<close> resolve the same VAST
  content, \<^verbatim>\<open>vastXml\<close> verbatim when present and non-empty and otherwise the wrapper
  around \<^verbatim>\<open>vastUrl\<close> with the impression tracker field of the bid. When \<^verbatim>\<open>btoa\<close>
  accepts that content, \<^verbatim>\<open>storeLocally\<close> writes into \<^verbatim>\<open>vastUrl\<close> of the bid, and stores
  under the key of the bid, the base64 data URI of the content that \<^verbatim>\<open>toStorageRequest\<close>
  puts into \<^verbatim>\<open>value\<close>; when \<^verbatim>\<open>btoa\<close> throws, so does \<^verbatim>\<open>storeLocally\<close>.
\<close>

theorem local_store_uses_payload_content:
  "p_value (toStorageRequest e b) = vast_content b \<and>
   (\<forall>encoded. btoa (p_value (toStorageRequest e b)) = Inr encoded \<longrightarrow>
      storeLocally b m =
        Inr (b\<lparr>vastUrl := Some (data_uri encoded)\<rparr>,
             m(getLocalCacheBidId b \<mapsto> data_uri encoded))) \<and>
   (\<forall>err. btoa (p_value (toStorageRequest e b)) = Inl err \<longrightarrow> storeLocally b m = Inl err)"
  by (auto simp: toStorageRequest_def storeLocally_def getVastValue_def vast_content_def
      data_uri_def getLocalCacheBidId_def Let_def split: option.splits list.splits)

theorem local_store_uses_payload_content_witness:
  "p_value (toStorageRequest example_env example_xml_bid) = ''<VAST/>'' \<and>
   btoa ''<VAST/>'' = Inr ''PFZBU1QvPg=='' \<and>
   storeLocally example_xml_bid Map.empty =
     Inr (example_xml_bid\<lparr>vastUrl := Some ''data:text/xml;base64,PFZBU1QvPg==''\<rparr>,
          [''other_a2'' \<mapsto> ''data:text/xml;base64,PFZBU1QvPg==''])"
proof -
  have v: "p_value (toStorageRequest example_env example_xml_bid) = ''<VAST/>''"
    using local_store_uses_payload_content [of example_env example_xml_bid Map.empty]
    by (simp add: vast_content_def example_xml_bid_def)
  have e: "btoa ''<VAST/>'' = Inr ''PFZBU1QvPg==''"
    by (simp add: btoa_def b64_char_def b64_alphabet_def)
  show ?thesis
    using local_store_uses_payload_content [of example_env example_xml_bid Map.empty] v e
    by (simp add: data_uri_def getLocalCacheBidId_def tmpl_str_def example_xml_bid_def)
qed

text \<open>
  Claim C6. For every bid, \<^verbatim>\<open>storeLocally\<close> is to store, and to write into \<^verbatim>\<open>vastUrl\<close>
  of the bid, the base64 data URI of the content that \<^verbatim>\<open>toStorageRequest\<close> places in
  \<^verbatim>\<open>value\<close>. This fails for a bid whose VAST content has a character with a code unit
  above 255: \<^verbatim>\<open>toStorageRequest\<close> places the content in \<^verbatim>\<open>value\<close>, but \<^verbatim>\<open>btoa\<close>
  throws on it and \<^verbatim>\<open>storeLocally\<close> has no handler, so neither the bid nor the map is
  written.
\<close>

theorem wide_character_is_not_stored:
  "p_value (toStorageRequest example_env euro_bid) = euro_vast \<and>
   storeLocally euro_bid empty_cache = Inl invalid_character_error"
  by (simp add: toStorageRequest_def storeLocally_def getVastValue_def btoa_def Let_def
      euro_bid_def euro_vast_def example_env_def)

lemma cleanup_lookup:
  "cleanupHandler bids m k = (if k \<in> getLocalCacheBidId ` set bids then None else m k)"
  unfolding cleanupHandler_def
  by (induction bids arbitrary: m) auto

text \<open>
  Claim C9. After the expiry handler has run for an auction, the entry of every bid the
  auction received is absent from the local cache, and every other entry, that is the
  entry under any key that is not the key of a bid of that auction, is unchanged.
\<close>

theorem expiry_removes_the_entries_of_the_auction:
  "(\<forall>b \<in> set bids. cleanupHandler bids m (getLocalCacheBidId b) = None) \<and>
   (\<forall>k. k \<notin> getLocalCacheBidId ` set bids \<longrightarrow> cleanupHandler bids m k = m k)"
  by (simp add: cleanup_lookup)

theorem expiry_removes_the_entries_of_the_auction_witness:
  "cleanupHandler [example_bid] [''nexverse_a1'' \<mapsto> ''data:1'', ''other_a2'' \<mapsto> ''data:2'']
     (getLocalCacheBidId example_bid) = None \<and>
   ''other_a2'' \<notin> getLocalCacheBidId ` set [example_bid] \<and>
   cleanupHandler [example_bid] [''nexverse_a1'' \<mapsto> ''data:1'', ''other_a2'' \<mapsto> ''data:2'']
     ''other_a2'' = Some ''data:2''"
  using expiry_removes_the_entries_of_the_auction
    [of "[example_bid]" "[''nexverse_a1'' \<mapsto> ''data:1'', ''other_a2'' \<mapsto> ''data:2'']"]
  by (simp add: getLocalCacheBidId_def example_bid_def tmpl_str_def)

subsection \<open>Configuration and Batcher\<close>

lemma submit_immediate:
  assumes "\<not> positive_setting (batchTimeout s)" and "\<not> ge_setting 0 (batchSize s)"
  shows "submit s en initial_batcher = Inr (initial_batcher, [[en]])"
  using assms by (simp add: submit_def initial_batcher_def flush_def Let_def)

lemma run_immediate:
  assumes "\<not> positive_setting (batchTimeout s)" and "\<not> ge_setting 0 (batchSize s)"
  shows "run s (map Submit es) initial_batcher = Inr (initial_batcher, map (\<lambda>en. [en]) es)"
  by (induction es) (simp_all add: submit_immediate [OF assms])

text \<open>
  Claim C10. When the cache configuration is applied, the maximum batch size becomes
  \<^verbatim>\<open>cache.batchSize\<close> if that is a number greater than 0 and 1 otherwise, and the
  debounce delay becomes \<^verbatim>\<open>cache.batchTimeout\<close> if that is a number greater than 0 and
  0 otherwise. So a deployment that configures neither (the callback never ran, or the
  configuration has neither field) passes every submitted bid to the store at once,
  inside the submission, as a batch of its own.
\<close>

theorem effective_batch_settings:
  "(\<forall>n. cfg_batchSize cache = Some (JNum n) \<and> 0 < n \<longrightarrow>
        batchSize (on_cache_config cache s) = Some n) \<and>
   (\<not> positive_number (cfg_batchSize cache) \<longrightarrow>
        batchSize (on_cache_config cache s) = Some 1) \<and>
   (\<forall>t. cfg_batchTimeout cache = Some (JNum t) \<and> 0 < t \<longrightarrow>
        batchTimeout (on_cache_config cache s) = Some t) \<and>
   (\<not> positive_number (cfg_batchTimeout cache) \<longrightarrow>
        batchTimeout (on_cache_config cache s) = Some 0) \<and>
   run initial_settings (map Submit es) initial_batcher =
     Inr (initial_batcher, map (\<lambda>en. [en]) es) \<and>
   (cfg_batchSize cache = None \<and> cfg_batchTimeout cache = None \<longrightarrow>
      run (on_cache_config cache s) (map Submit es) initial_batcher =
        Inr (initial_batcher, map (\<lambda>en. [en]) es))"
proof -
  have 1: "run initial_settings (map Submit es) initial_batcher =
             Inr (initial_batcher, map (\<lambda>en. [en]) es)"
    by (rule run_immediate)
      (simp_all add: initial_settings_def positive_setting_def ge_setting_def)
  have 2: "run (on_cache_config cache s) (map Submit es) initial_batcher =
             Inr (initial_batcher, map (\<lambda>en. [en]) es)"
    if "cfg_batchSize cache = None \<and> cfg_batchTimeout cache = None"
    using that
    by (intro run_immediate)
      (simp_all add: on_cache_config_def positive_number_or_def positive_setting_def
        ge_setting_def)
  have 3: "batchSize (on_cache_config cache s) = Some 1"
    if "\<not> positive_number (cfg_batchSize cache)"
    using that
    by (auto simp: on_cache_config_def positive_number_or_def positive_number_def
        split: option.splits json.splits)
  have 4: "batchTimeout (on_cache_config cache s) = Some 0"
    if "\<not> positive_number (cfg_batchTimeout cache)"
    using that
    by (auto simp: on_cache_config_def positive_number_or_def positive_number_def
        split: option.splits json.splits)
  show ?thesis
    using 1 2 3 4 by (simp add: on_cache_config_def positive_number_or_def)
qed

theorem effective_batch_settings_witness:
  "batchSize (on_cache_config example_cache_config initial_settings) = Some 2 \<and>
   \<not> positive_number (cfg_batchTimeout example_cache_config) \<and>
   batchTimeout (on_cache_config example_cache_config initial_settings) = Some 0 \<and>
   run initial_settings (map Submit [''b1'', ''b2'', ''b3'']) initial_batcher =
     Inr (initial_batcher, [[''b1''], [''b2''], [''b3'']]) \<and>
   run (on_cache_config \<lparr>cfg_batchSize = None, cfg_batchTimeout = None, cfg_useLocal = False\<rparr>
          initial_settings)
       (map Submit [''b1'', ''b2'', ''b3'']) initial_batcher =
     Inr (initial_batcher, [[''b1''], [''b2''], [''b3'']])"
  using effective_batch_settings
      [of example_cache_config initial_settings "[''b1'', ''b2'', ''b3'']"]
    effective_batch_settings
      [of "\<lparr>cfg_batchSize = None, cfg_batchTimeout = None, cfg_useLocal = False\<rparr>"
          initial_settings "[''b1'', ''b2'', ''b3'']"]
  by (simp add: example_cache_config_def positive_number_def)

lemma run_append:
  "run s (xs @ ys) st =
     (case run s xs st of
        Inl err \<Rightarrow> Inl err
      | Inr (st', calls) \<Rightarrow>
          (case run s ys st' of
             Inl err \<Rightarrow> Inl err
           | Inr (st'', calls') \<Rightarrow> Inr (st'', calls @ calls')))"
proof (induction xs arbitrary: st)
  case Nil
  show ?case by (simp split: sum.split)
next
  case (Cons a xs)
  show ?case
    by (cases a) (simp_all add: Cons.IH split: sum.split prod.split)
qed

lemma submit_bounded:
  assumes "batchSize s = Some (int k)" and "0 < k"
    and "batches st \<noteq> []" and "bounded k (batches st)"
  shows "\<exists>st' calls. submit s en st = Inr (st', calls) \<and> batches st' \<noteq> [] \<and>
           bounded k (batches st') \<and> bounded k calls"
proof -
  obtain bs b where bs: "batches st = bs @ [b]"
    using assms(3) by (metis rev_exhaust)
  have b: "length b \<le> k" and bb: "list_all (\<lambda>b. length b \<le> k) bs"
    using assms(4) by (simp_all add: bounded_def bs)
  show ?thesis
    using assms(1,2) b bb
    by (auto simp: submit_def bs Let_def ge_setting_def flush_def bounded_def butlast_append)
qed

lemma fire_bounded:
  assumes "batches st \<noteq> []" and "bounded k (batches st)"
  shows "batches (fst (fire st)) \<noteq> [] \<and> bounded k (batches (fst (fire st))) \<and>
         bounded k (snd (fire st))"
  using assms by (simp add: fire_def flush_def bounded_def)

lemma run_bounded:
  assumes "batchSize s = Some (int k)" and "0 < k"
    and "batches st \<noteq> []" and "bounded k (batches st)"
  shows "\<exists>st' calls. run s as st = Inr (st', calls) \<and> batches st' \<noteq> [] \<and>
           bounded k (batches st') \<and> bounded k calls"
  using assms(3,4)
proof (induction as arbitrary: st)
  case Nil
  then show ?case by (simp add: bounded_def)
next
  case (Cons a as)
  show ?case
  proof (cases a)
    case (Submit en)
    obtain st1 c1 where 1: "submit s en st = Inr (st1, c1)" "batches st1 \<noteq> []"
      "bounded k (batches st1)" "bounded k c1"
      using submit_bounded [OF assms(1,2) Cons.prems] by blast
    obtain st2 c2 where 2: "run s as st1 = Inr (st2, c2)" "batches st2 \<noteq> []"
      "bounded k (batches st2)" "bounded k c2"
      using Cons.IH [OF 1(2,3)] by blast
    show ?thesis
      using 1 2 by (simp add: Submit bounded_def)
  next
    case Fire
    obtain st1 c1 where f: "fire st = (st1, c1)"
      by (cases "fire st")
    have 1: "batches st1 \<noteq> []" "bounded k (batches st1)" "bounded k c1"
      using fire_bounded [OF Cons.prems] by (simp_all add: f)
    obtain st2 c2 where 2: "run s as st1 = Inr (st2, c2)" "batches st2 \<noteq> []"
      "bounded k (batches st2)" "bounded k c2"
      using Cons.IH [OF 1(1,2)] by blast
    show ?thesis
      using 1 2 by (simp add: Fire f bounded_def)
  qed
qed

lemma submit_first:
  assumes "batchSize s = Some (int k)" and "0 < k" and "batchTimeout s = Some t" and "0 < t"
  shows "submit s en initial_batcher =
           Inr (\<lparr>batches = [[en]], debouncing = True, timers = 1\<rparr>, [])"
  using assms
  by (simp add: submit_def initial_batcher_def Let_def ge_setting_def positive_setting_def)

lemma submit_next:
  assumes "batchSize s = Some (int k)" and "0 < k"
    and "filled k bs"
  shows "\<exists>bs'. submit s en \<lparr>batches = bs, debouncing = True, timers = 1\<rparr> =
           Inr (\<lparr>batches = bs', debouncing = True, timers = 1\<rparr>, []) \<and>
           filled k bs' \<and> concat bs' = concat bs @ [en]"
proof -
  obtain xs b where bs: "bs = xs @ [b]"
    using assms(3) by (metis filled_def rev_exhaust)
  have b: "0 < length b" "length b \<le> k" and xs: "list_all (\<lambda>b. length b = k) xs"
    using assms(3) by (simp_all add: filled_def bs)
  show ?thesis
  proof (cases "length b = k")
    case True
    then show ?thesis
      using assms(1,2) b xs
      by (simp add: submit_def bs Let_def ge_setting_def filled_def butlast_append)
  next
    case False
    then have "length b < k" using b by simp
    then show ?thesis
      using assms(1,2) b xs
      by (simp add: submit_def bs Let_def ge_setting_def filled_def butlast_append)
  qed
qed

lemma run_window:
  assumes "batchSize s = Some (int k)" and "0 < k" and "batchTimeout s = Some t" and "0 < t"
    and "es \<noteq> []"
  shows "\<exists>bs. run s (map Submit es) initial_batcher =
           Inr (\<lparr>batches = bs, debouncing = True, timers = 1\<rparr>, []) \<and>
           filled k bs \<and> concat bs = es"
  using assms(5)
proof (induction es rule: rev_induct)
  case Nil
  then show ?case by simp
next
  case (snoc en es)
  show ?case
  proof (cases "es = []")
    case True
    then show ?thesis
      using assms(2) by (simp add: submit_first [OF assms(1-4)] filled_def)
  next
    case False
    then obtain bs where 1: "run s (map Submit es) initial_batcher =
           Inr (\<lparr>batches = bs, debouncing = True, timers = 1\<rparr>, [])"
      "filled k bs" "concat bs = es"
      using snoc.IH by blast
    obtain bs' where 2: "submit s en \<lparr>batches = bs, debouncing = True, timers = 1\<rparr> =
           Inr (\<lparr>batches = bs', debouncing = True, timers = 1\<rparr>, [])"
      "filled k bs'" "concat bs' = concat bs @ [en]"
      using submit_next [OF assms(1,2) 1(2)] by blast
    show ?thesis
      using 1 2 by (simp add: run_append)
  qed
qed

lemma length_concat_full:
  "list_all (\<lambda>b. length b = k) xs \<Longrightarrow> length (concat xs) = k * length xs"
  by (induction xs) auto

lemma filled_count:
  assumes "filled k bs" and "0 < k"
  shows "(length (concat bs) + k - 1) div k = length bs"
proof -
  obtain xs b where bs: "bs = xs @ [b]"
    using assms(1) by (metis filled_def rev_exhaust)
  have b: "0 < length b" "length b \<le> k" and xs: "list_all (\<lambda>b. length b = k) xs"
    using assms(1) by (simp_all add: filled_def bs)
  obtain r where r: "length b = Suc r" "r < k"
    using b by (cases "length b") auto
  have "length (concat bs) + k - 1 = (r + k) + length xs * k"
    using r by (simp add: bs length_concat_full [OF xs])
  then have "(length (concat bs) + k - 1) div k = (r + k) div k + length xs"
    using assms(2) by simp
  also have "(r + k) div k = 1"
    using r assms(2) by (simp add: div_add_self2)
  finally show ?thesis by (simp add: bs)
qed

lemma filled_bounded:
  assumes "filled k bs"
  shows "bounded k bs"
proof -
  obtain xs b where bs: "bs = xs @ [b]"
    using assms by (metis filled_def rev_exhaust)
  have "list_all (\<lambda>b. length b = k) xs" "length b \<le> k"
    using assms by (simp_all add: filled_def bs)
  then show ?thesis
    by (auto simp: bounded_def bs list_all_iff)
qed

text \<open>
  Claim C4. With maximum batch size \<open>k\<close> (a positive integer), whatever bids are
  submitted and whenever the timer fires, the accumulator never holds a batch of more than
  \<open>k\<close> entries and no flushed batch has more than \<open>k\<close> entries. With a debounce delay
  \<open>t > 0\<close>, the bids \<open>es\<close> submitted in one window, from the first submission to the
  firing of the timer, are flushed as exactly \<open>\<lceil>N / k\<rceil>\<close> store calls for \<open>N\<close> bids,
  each for a batch of at most \<open>k\<close> entries, which together hold the bids in the order of
  submission; the accumulator is then as it was at the start.
\<close>

theorem batches_bounded_and_counted:
  assumes "batchSize s = Some (int k)" and "0 < k"
  shows "(\<exists>st calls. run s as initial_batcher = Inr (st, calls) \<and>
            bounded k (batches st) \<and> bounded k calls) \<and>
         (\<forall>t. batchTimeout s = Some t \<and> 0 < t \<longrightarrow>
            (\<exists>calls. run s (map Submit es @ [Fire]) initial_batcher =
                        Inr (initial_batcher, calls) \<and>
                      length calls = (length es + k - 1) div k \<and>
                      bounded k calls \<and> concat calls = es))"
proof (intro conjI allI impI)
  show "\<exists>st calls. run s as initial_batcher = Inr (st, calls) \<and>
            bounded k (batches st) \<and> bounded k calls"
    using run_bounded [OF assms, of initial_batcher as]
    by (auto simp: initial_batcher_def bounded_def)
next
  fix t
  assume t: "batchTimeout s = Some t \<and> 0 < t"
  show "\<exists>calls. run s (map Submit es @ [Fire]) initial_batcher =
                        Inr (initial_batcher, calls) \<and>
                      length calls = (length es + k - 1) div k \<and>
                      bounded k calls \<and> concat calls = es"
  proof (cases "es = []")
    case True
    then show ?thesis
      using assms(2) by (simp add: fire_def initial_batcher_def bounded_def)
  next
    case False
    obtain bs where 1: "run s (map Submit es) initial_batcher =
           Inr (\<lparr>batches = bs, debouncing = True, timers = 1\<rparr>, [])"
      "filled k bs" "concat bs = es"
      using run_window [OF assms _ _ False] t by blast
    have "run s (map Submit es @ [Fire]) initial_batcher = Inr (initial_batcher, bs)"
      using 1(1) by (simp add: run_append fire_def flush_def initial_batcher_def)
    then show ?thesis
      using filled_count [OF 1(2) assms(2)] filled_bounded [OF 1(2)] 1(3) by simp
  qed
qed

theorem batches_bounded_and_counted_witness:
  "batchSize example_settings = Some (int 2) \<and> (0::nat) < 2 \<and>
   batchTimeout example_settings = Some 50 \<and>
   run example_settings (map Submit [''b1'', ''b2'', ''b3'', ''b4'', ''b5''] @ [Fire])
       initial_batcher =
     Inr (initial_batcher, [[''b1'', ''b2''], [''b3'', ''b4''], [''b5'']]) \<and>
   length [[''b1'', ''b2''], [''b3'', ''b4''], [''b5'']] = (5 + 2 - 1) div (2::nat)"
proof -
  have h: "batchSize example_settings = Some (int 2)" "(0::nat) < 2"
    by (simp_all add: example_settings_def)
  have r: "run example_settings (map Submit [''b1'', ''b2'', ''b3'', ''b4'', ''b5''] @ [Fire])
               initial_batcher =
             Inr (initial_batcher, [[''b1'', ''b2''], [''b3'', ''b4''], [''b5'']])"
    by (simp add: example_settings_def submit_def fire_def flush_def initial_batcher_def
        ge_setting_def positive_setting_def Let_def)
  show ?thesis
    using batches_bounded_and_counted
      [OF h, of "[Submit ''b1'', Fire]" "[''b1'', ''b2'', ''b3'', ''b4'', ''b5'']"] r
    by (simp add: example_settings_def)
qed

subsection \<open>Resolution through the ad server\<close>

lemma b64_char_not_dollar: "CHR ''$'' \<noteq> b64_char n"
proof -
  have "n mod 64 < length b64_alphabet"
    by (simp add: b64_alphabet_def)
  then have "b64_char n \<in> set b64_alphabet"
    unfolding b64_char_def by (rule nth_mem)
  moreover have "CHR ''$'' \<notin> set b64_alphabet"
    by (simp add: b64_alphabet_def)
  ultimately show ?thesis by metis
qed

lemma base64_no_dollar: "CHR ''$'' \<notin> set (base64 s)"
  by (induction s rule: base64.induct) (simp_all add: Let_def b64_char_not_dollar)

lemma data_uri_no_dollar: "CHR ''$'' \<notin> set (data_uri (base64 units))"
  by (simp add: data_uri_def base64_no_dollar)

lemma get_substitution_plain:
  "CHR ''$'' \<notin> set r \<Longrightarrow> get_substitution m f b r = r"
  by (induction m f b r rule: get_substitution.induct) auto

lemma find_first_none:
  "\<not> sublist pat doc \<Longrightarrow> find_first pat doc = None"
proof (induction doc)
  case Nil
  then show ?case by auto
next
  case (Cons c cs)
  then show ?case by (auto simp: sublist_Cons_right)
qed

lemma prefix_straddle:
  assumes "prefix pat (front @ pat @ rest)" and "front \<noteq> []" and "pat \<noteq> []"
  shows "prefix pat (front @ butlast pat)"
proof -
  have "front @ pat @ rest = (front @ butlast pat) @ (last pat # rest)"
    using assms(3) by simp
  then have "prefix (front @ butlast pat) (front @ pat @ rest)"
    by (metis prefixI)
  moreover have "length pat \<le> length (front @ butlast pat)"
    using assms(2,3) by (cases front) auto
  ultimately show ?thesis
    using assms(1) prefix_length_prefix by blast
qed

lemma find_first_some:
  assumes "first_at pat doc front rest" and "pat \<noteq> []"
  shows "find_first pat doc = Some (front, rest)"
  using assms(1)
proof (induction front arbitrary: doc)
  case Nil
  then have d: "doc = pat @ rest" by (simp add: first_at_def)
  obtain p ps where "pat = p # ps"
    using assms(2) by (cases pat) auto
  then show ?case
    by (simp add: d)
next
  case (Cons a front)
  then have d: "doc = a # (front @ pat @ rest)"
    and n: "\<not> sublist pat ((a # front) @ butlast pat)"
    by (simp_all add: first_at_def)
  have "\<not> prefix pat ((a # front) @ pat @ rest)"
  proof
    assume "prefix pat ((a # front) @ pat @ rest)"
    then have "prefix pat ((a # front) @ butlast pat)"
      using assms(2) by (intro prefix_straddle) simp_all
    then have "sublist pat ((a # front) @ butlast pat)"
      by (rule prefix_imp_sublist)
    with n show False by simp
  qed
  moreover have "first_at pat (front @ pat @ rest) front rest"
    using n by (simp add: first_at_def sublist_Cons_right)
  ultimately show ?case
    using Cons.IH d by simp
qed

lemma js_replace_first:
  assumes "first_at pat doc front rest" and "pat \<noteq> []" and "CHR ''$'' \<notin> set r"
  shows "js_replace doc pat r = front @ r @ rest"
  using find_first_some [OF assms(1,2)] get_substitution_plain [OF assms(3)]
  by (simp add: js_replace_def)

lemma js_replace_absent:
  assumes "\<not> sublist pat doc"
  shows "js_replace doc pat r = doc"
  using find_first_none [OF assms] by (simp add: js_replace_def)

text \<open>
  What the function returns for a fetched wrapper document \<open>doc\<close>, with the bidder and
  the ad identifier recovered from the tag URL. When the local cache holds a base64
  data URI for them, as \<^verbatim>\<open>storeLocally\<close> writes it, the result is \<open>doc\<close> with the first
  occurrence of the placeholder replaced by that data URI. When the local cache holds no
  entry, the first occurrence of the placeholder is replaced by the text \<^verbatim>\<open>undefined\<close>.
  In both cases a document that does not contain the placeholder is returned unchanged.
\<close>

theorem placeholder_substitution:
  assumes "cust_params url = Inr (hb_bidder, hb_adid)"
    and "fetch url = Inr (True, doc)"
  shows "(cache (cache_key hb_bidder hb_adid) = Some (data_uri (base64 units)) \<and>
          first_at (placeholder hb_bidder) doc front rest \<longrightarrow>
            getLocalCachedBidWithGam cust_params fetch cache url =
              Inr (Some (front @ data_uri (base64 units) @ rest), [])) \<and>
         (cache (cache_key hb_bidder hb_adid) = None \<and>
          first_at (placeholder hb_bidder) doc front rest \<longrightarrow>
            getLocalCachedBidWithGam cust_params fetch cache url =
              Inr (Some (front @ ''undefined'' @ rest), [])) \<and>
         (\<not> sublist (placeholder hb_bidder) doc \<longrightarrow>
            getLocalCachedBidWithGam cust_params fetch cache url = Inr (Some doc, []))"
proof -
  have p: "placeholder hb_bidder \<noteq> []"
    by (simp add: placeholder_def)
  have u: "CHR ''$'' \<notin> set ''undefined''"
    by simp
  have r: "getLocalCachedBidWithGam cust_params fetch cache url =
             Inr (Some (js_replace doc (placeholder hb_bidder)
                          (tmpl_str (cache (cache_key hb_bidder hb_adid)))), [])"
    using assms
    by (simp add: getLocalCachedBidWithGam_def placeholder_def cache_key_def
        LOCAL_CACHE_MOCK_URL_def Let_def)
  show ?thesis
    using js_replace_first [OF _ p data_uri_no_dollar] js_replace_first [OF _ p u]
      js_replace_absent
    by (simp add: r tmpl_str_def)
qed

theorem placeholder_substitution_witness:
  "storeLocally (example_bid\<lparr>vastXml := Some ''<VAST/>''\<rparr>) empty_cache =
     Inr (example_bid\<lparr>vastXml := Some ''<VAST/>'', vastUrl := Some (data_uri (base64 ''<VAST/>''))\<rparr>,
          empty_cache(''nexverse_a1'' \<mapsto> data_uri (base64 ''<VAST/>''))) \<and>
   getLocalCachedBidWithGam example_cust_params example_fetch
     (empty_cache(''nexverse_a1'' \<mapsto> data_uri (base64 ''<VAST/>''))) ''https://gam.example/ad'' =
     Inr (Some (''<VASTAdTagURI><![CDATA['' @ data_uri (base64 ''<VAST/>'') @
                '']]></VASTAdTagURI>''), [])"
proof -
  have c: "example_cust_params ''https://gam.example/ad'' = Inr (Some ''nexverse'', Some ''a1'')"
    by (simp add: example_cust_params_def)
  have f: "example_fetch ''https://gam.example/ad'' = Inr (True, example_doc)"
    by (simp add: example_fetch_def)
  have s: "storeLocally (example_bid\<lparr>vastXml := Some ''<VAST/>''\<rparr>) empty_cache =
     Inr (example_bid\<lparr>vastXml := Some ''<VAST/>'', vastUrl := Some (data_uri (base64 ''<VAST/>''))\<rparr>,
          empty_cache(''nexverse_a1'' \<mapsto> data_uri (base64 ''<VAST/>'')))"
    by (simp add: storeLocally_def getVastValue_def btoa_def Let_def data_uri_def
        getLocalCacheBidId_def tmpl_str_def example_bid_def del: base64.simps)
  have k: "(empty_cache(''nexverse_a1'' \<mapsto> data_uri (base64 ''<VAST/>'')))
             (cache_key (Some ''nexverse'') (Some ''a1'')) =
             Some (data_uri (base64 ''<VAST/>''))"
    by (simp add: cache_key_def tmpl_null_def)
  have a: "first_at (placeholder (Some ''nexverse'')) example_doc
             ''<VASTAdTagURI><![CDATA['' '']]></VASTAdTagURI>''"
    by (simp add: first_at_def placeholder_def tmpl_null_def example_doc_def
        sublist_Cons_right)
  show ?thesis
    using placeholder_substitution
        [where cust_params = example_cust_params and fetch = example_fetch
           and url = "''https://gam.example/ad''" and hb_bidder = "Some ''nexverse''"
           and hb_adid = "Some ''a1''" and doc = example_doc
           and cache = "empty_cache(''nexverse_a1'' \<mapsto> data_uri (base64 ''<VAST/>''))"
           and units = "''<VAST/>''"
           and front = "''<VASTAdTagURI><![CDATA[''" and rest = "'']]></VASTAdTagURI>''",
         OF c f]
      s k a
    by (simp del: base64.simps)
qed

text \<open>
  Claim C8. With a local entry for the bidder and the ad identifier of the tag URL, the
  first occurrence of the placeholder is replaced by the stored data URI, as shown
  above; without a local entry the document is to pass through unchanged. The second
  part fails on a document that contains the placeholder: \<^verbatim>\<open>replace\<close> is called with
  the result of the failed lookup, and the placeholder becomes the text \<^verbatim>\<open>undefined\<close>.
\<close>

theorem missing_entry_changes_document:
  "empty_cache (cache_key (Some ''nexverse'') (Some ''a1'')) = None \<and>
   getLocalCachedBidWithGam example_cust_params example_fetch empty_cache
     ''https://gam.example/ad'' =
     Inr (Some ''<VASTAdTagURI><![CDATA[undefined]]></VASTAdTagURI>'', []) \<and>
   ''<VASTAdTagURI><![CDATA[undefined]]></VASTAdTagURI>'' \<noteq> example_doc"
  by (simp add: empty_cache_def getLocalCachedBidWithGam_def example_cust_params_def
      example_fetch_def example_doc_def LOCAL_CACHE_MOCK_URL_def tmpl_null_def tmpl_str_def
      js_replace_def Let_def)

subsection \<open>VastWrapperBuilder\<close>

lemma no_cdata_end_at_front:
  assumes "cdata_safe (c # u)"
  shows "\<not> prefix '']]>'' (c # u @ CHR '']'' # CHR '']'' # CHR ''>'' # rest)"
proof (cases u)
  case Nil
  then show ?thesis by simp
next
  case u: (Cons d u')
  show ?thesis
  proof (cases u')
    case Nil
    then show ?thesis by (simp add: u)
  next
    case (Cons f u'')
    have "\<not> prefix '']]>'' (c # d # f # u'')"
      using assms prefix_imp_sublist unfolding cdata_safe_def u Cons by blast
    then show ?thesis
      by (simp add: u Cons)
  qed
qed

lemma cdata_safe_tail: "cdata_safe (c # u) \<Longrightarrow> cdata_safe u"
  by (simp add: cdata_safe_def sublist_Cons_right)

lemma count_tag_cdata:
  assumes "cdata_safe u"
  shows "count_tag tag True (u @ CHR '']'' # CHR '']'' # CHR ''>'' # rest) =
         count_tag tag False (CHR '']'' # CHR ''>'' # rest)"
  using assms
proof (induction u)
  case Nil
  then show ?case by simp
next
  case (Cons c u)
  have "count_tag tag True ((c # u) @ CHR '']'' # CHR '']'' # CHR ''>'' # rest) =
        count_tag tag True (u @ CHR '']'' # CHR '']'' # CHR ''>'' # rest)"
    using no_cdata_end_at_front [OF Cons.prems, of rest]
    by (simp only: append_Cons count_tag.simps if_True if_False)
  then show ?case
    using Cons.IH [OF cdata_safe_tail [OF Cons.prems]] by (simp only:)
qed

lemma wrapURI_no_trackers: "wrapURI uri NoTrackers = wrapper_head uri @ wrapper_tail"
  by (simp add: wrapURI_def impressions_of_def normalize_trackers_def wrapper_head_def
      wrapper_tail_def)

lemma wrapURI_two_trackers:
  "wrapURI uri (Trackers [t1, t2]) =
     wrapper_head uri @ impression t1 @ impression t2 @ wrapper_tail"
  by (simp add: wrapURI_def impressions_of_def normalize_trackers_def wrapper_head_def
      wrapper_tail_def)

lemma count_impressions_no_trackers:
  assumes "cdata_safe uri"
  shows "count_tag ''<Impression>'' False (wrapper_head uri @ wrapper_tail) = 0"
  by (simp add: wrapper_head_def wrapper_tail_def nl_def count_tag_cdata [OF assms])

lemma count_creatives_no_trackers:
  assumes "cdata_safe uri"
  shows "count_tag ''<Creatives></Creatives>'' False (wrapper_head uri @ wrapper_tail) = 1"
  by (simp add: wrapper_head_def wrapper_tail_def nl_def count_tag_cdata [OF assms])

lemma count_impressions_two_trackers:
  assumes "cdata_safe uri" and "cdata_safe t1" and "cdata_safe t2"
  shows "count_tag ''<Impression>'' False
           (wrapper_head uri @ impression t1 @ impression t2 @ wrapper_tail) = 2"
  by (simp add: wrapper_head_def wrapper_tail_def nl_def impression_def
      count_tag_cdata [OF assms(1)] count_tag_cdata [OF assms(2)] count_tag_cdata [OF assms(3)])

text \<open>
  Claim C5, for a tag URI and trackers that do not contain the CDATA terminator
  \<^verbatim>\<open>]]>\<close>. Without trackers \<^verbatim>\<open>wrapURI\<close> returns the VAST 3.0 wrapper with the URI in
  the CDATA section of its \<^verbatim>\<open>VASTAdTagURI\<close> element, followed by the empty \<^verbatim>\<open>Creatives\<close>
  element, and the document has no \<^verbatim>\<open>Impression\<close> element. With the trackers
  \<open>[t1, t2]\<close> the same wrapper holds, between the two parts, the \<^verbatim>\<open>Impression\<close> element
  of \<open>t1\<close> and then that of \<open>t2\<close>, and the document has exactly two \<^verbatim>\<open>Impression\<close>
  elements. The result is a function of the arguments alone.
\<close>

theorem wrapper_document_elements:
  assumes "cdata_safe uri" and "cdata_safe t1" and "cdata_safe t2"
  shows "wrapURI uri NoTrackers = wrapper_head uri @ wrapper_tail \<and>
         count_tag ''<Impression>'' False (wrapURI uri NoTrackers) = 0 \<and>
         count_tag ''<Creatives></Creatives>'' False (wrapURI uri NoTrackers) = 1 \<and>
         wrapURI uri (Trackers [t1, t2]) =
           wrapper_head uri @ impression t1 @ impression t2 @ wrapper_tail \<and>
         count_tag ''<Impression>'' False (wrapURI uri (Trackers [t1, t2])) = 2"
  using count_impressions_no_trackers [OF assms(1)] count_creatives_no_trackers [OF assms(1)]
    count_impressions_two_trackers [OF assms]
  by (simp only: wrapURI_no_trackers wrapURI_two_trackers simp_thms)

theorem wrapper_document_elements_witness:
  "cdata_safe ''http://x/vast.xml'' \<and> cdata_safe ''http://t/1'' \<and> cdata_safe ''http://t/2'' \<and>
   count_tag ''<Impression>'' False (wrapURI ''http://x/vast.xml'' NoTrackers) = 0 \<and>
   count_tag ''<Creatives></Creatives>'' False (wrapURI ''http://x/vast.xml'' NoTrackers) = 1 \<and>
   wrapURI ''http://x/vast.xml'' (Trackers [''http://t/1'', ''http://t/2'']) =
     wrapper_head ''http://x/vast.xml'' @
     impression ''http://t/1'' @ impression ''http://t/2'' @ wrapper_tail \<and>
   count_tag ''<Impression>'' False
     (wrapURI ''http://x/vast.xml'' (Trackers [''http://t/1'', ''http://t/2''])) = 2"
proof -
  have s: "cdata_safe ''http://x/vast.xml''" "cdata_safe ''http://t/1''" "cdata_safe ''http://t/2''"
    by (simp_all add: cdata_safe_def sublist_Cons_right)
  show ?thesis
    using s wrapper_document_elements [OF s] by blast
qed

text \<open>
  The claim as it is written fails for a tag URI that contains \<^verbatim>\<open>]]>\<close>: the URI is
  embedded as it is, so it can end the CDATA section, and the document then has an
  \<^verbatim>\<open>Impression\<close> element although no tracker was given.
\<close>

theorem injected_impression_element:
  "count_tag ''<Impression>'' False (wrapURI injecting_uri NoTrackers) = 1"
  by (simp add: wrapURI_def impressions_of_def normalize_trackers_def nl_def injecting_uri_def)

end
